theory Spec2Isabelle
  imports Main
begin

section \<open>Go values, errors and abrupt exits\<close>

text \<open>
  A value of Go's \<^verbatim>\<open>interface{}\<close> is a dynamic type with its payload. The type switches of
  the source only tell an \<^verbatim>\<open>ExitCode\<close> from another \<^verbatim>\<open>error\<close> from anything else, so
  the universe has one constructor per case that the source can tell apart. \<open>ExitCode\<close> is an
  integer type that implements \<^verbatim>\<open>error\<close> (the source assigns one to \<^verbatim>\<open>err\<close>).
  \<open>Errorf_GoSyntax r\<close> is \<^verbatim>\<open>fmt.Errorf("%#v", r)\<close>; \<open>Errorf_MapperCheck e\<close> is the
  \<^verbatim>\<open>fmt.Errorf("Please check if your mapper function is correct:%s\n%w", ..., e)\<close> of the
  fetch loop, whose message text is not modelled. \<open>RuntimeError\<close> is a panic raised by the Go
  runtime itself (it implements \<^verbatim>\<open>error\<close>). A value that \<^verbatim>\<open>recover()\<close> returns is never
  nil here: the handlers of the source test \<^verbatim>\<open>r != nil\<close> first.
\<close>

datatype error =
    ExitCode int
  | ErrorString string
  | ErrNoRows
  | RuntimeError string
  | DriverError string
  | Errorf_GoSyntax "value"
  | Errorf_MapperCheck error
and "value" =
    VInt int
  | VString string
  | VBool bool
  | VError error

text \<open>
  A call either returns, or panics with a value; the state it had reached is kept in both
  cases, since the writes made before a panic stay made.
\<close>

datatype 'a outcome = Normal 'a | Panic "value" 'a

fun and_then :: "'a outcome \<Rightarrow> ('a \<Rightarrow> 'a outcome) \<Rightarrow> 'a outcome" where
  "and_then (Normal a) f = f a"
| "and_then (Panic v a) f = Panic v a"

definition nil_dereference :: "value" where
  "nil_dereference =
     VError (RuntimeError ''invalid memory address or nil pointer dereference'')"

definition index_out_of_range :: "value" where
  "index_out_of_range = VError (RuntimeError ''index out of range'')"

section \<open>Rendered SQL: a buffer and an argument list\<close>

text \<open>
  Every \<^verbatim>\<open>AppendSQL\<close> of the source writes to a \<^verbatim>\<open>*strings.Builder\<close> and appends to a
  \<^verbatim>\<open>*[]interface{}\<close>; the model passes the pair along. The \<^verbatim>\<open>params\<close> argument is
  \<^verbatim>\<open>nil\<close> at every call of the source and is left out.

  An object behind an interface whose implementation is not among the source files (a base
  table, a nested query, a predicate, a join, a common table expression) is given by what its
  rendering emits: pieces of text and placeholders, each placeholder with the argument that
  is appended for it.
\<close>

datatype token = Txt string | Placeholder "value"

fun tokens_text :: "token list \<Rightarrow> string" where
  "tokens_text [] = []"
| "tokens_text (Txt s # ts) = s @ tokens_text ts"
| "tokens_text (Placeholder v # ts) = ''?'' @ tokens_text ts"

fun tokens_args :: "token list \<Rightarrow> value list" where
  "tokens_args [] = []"
| "tokens_args (Txt s # ts) = tokens_args ts"
| "tokens_args (Placeholder v # ts) = v # tokens_args ts"

definition append_tokens :: "token list \<Rightarrow> string \<times> value list \<Rightarrow> string \<times> value list" where
  "append_tokens ts st = (fst st @ tokens_text ts, snd st @ tokens_args ts)"

text \<open>
  A value of the interface \<^verbatim>\<open>Query\<close> that is used as a table or as a value: the
  implementations that are tables as well (\<^verbatim>\<open>GetAlias\<close>, \<^verbatim>\<open>GetName\<close>) are not among the
  source files. \<open>NestThis_sql\<close> is what \<^verbatim>\<open>v.NestThis().AppendSQL(buf, args, nil)\<close> emits.
\<close>

record Query =
  NestThis_sql :: "token list"
  Query_GetAlias :: string

section \<open>Fields, function calls and values (fields.go, function_info.go)\<close>

text \<open>
  Modelled from the spec: the constructor \<open>TableColumn q n a\<close>, which stands for the column
  fields of the generated table descriptors; their types are not among the source files. A
  Field has a name \<open>n\<close>, an owning table qualifier \<open>q\<close> and an alias \<open>a\<close>, and "renders as
  table.name unless its table is in the caller's exclusion set, in which case it renders
  unqualified".

  The other constructors follow the source. \<open>Field\<close> is an interface; \<open>FieldLiteral\<close>
  (fields.go) and \<^verbatim>\<open>*FunctionInfo\<close> (function_info.go; a pointer, which may be nil inside a
  non-nil interface) are its implementations in the source files.

  \<open>Value\<close> is the \<^verbatim>\<open>interface{}\<close> of \<^verbatim>\<open>FieldAssignment.Value\<close> and
  \<^verbatim>\<open>FunctionInfo.Arguments\<close>, split the way the value dispatch splits it: a literal, a Field,
  a Query, or nil.
\<close>

datatype Field =
    FieldLiteral string
  | FunctionInfoPtr "FunctionInfo option"
  | TableColumn string string string
and FunctionInfo =
    FunctionInfo (Schema: string) (Name: string) (Alias: string) (Arguments: "Value list")
and Value =
    Literal "value"
  | FieldValue Field
  | QueryValue Query
  | NilValue

type_synonym Fields = "Field option list"

text \<open>The format string that \<^verbatim>\<open>FunctionInfo.AppendSQLExclude\<close> builds (lines 26-40).\<close>

definition FunctionInfo_format :: "FunctionInfo \<Rightarrow> string" where
  "FunctionInfo_format f =
     (let format =
        (if Schema f \<noteq> ''''
         then (if list_ex (\<lambda>c. c = CHR '' '' \<or> c = CHR 0x09) (Schema f)
               then [CHR 0x22] @ Schema f @ [CHR 0x22] @ ''.''
               else Schema f @ ''.'')
         else '''')
      in (case length (Arguments f) of
            0 \<Rightarrow> format @ Name f @ ''()''
          | Suc n \<Rightarrow> format @ Name f @ ''(?'' @ concat (replicate n '', ?'') @ '')''))"

text \<open>The text before the first \<^verbatim>\<open>?\<close> of a format string, and the text after it.\<close>

fun split_question :: "string \<Rightarrow> (string \<times> string) option" where
  "split_question [] = None"
| "split_question (c # cs) =
     (if c = CHR ''?'' then Some ([], cs)
      else map_option (\<lambda>(p, r). (c # p, r)) (split_question cs))"

text \<open>
  Modelled from the spec: the helpers \<open>appendSQLValue\<close> and \<open>expandValues\<close>, which fields.go
  and function_info.go call and whose bodies are not among the source files, and the case
  \<open>TableColumn\<close> of \<open>Field_AppendSQLExclude\<close>.
  \<^item> \<open>appendSQLValue\<close> is the value dispatch: "literal values become a positional placeholder
    token plus one appended argument; a nested Query value becomes a parenthesized,
    recursively rendered SQL fragment with no placeholder token; a Field value becomes its
    qualified name with no argument"; a nil value is a malformed tree, which "renders as a
    literal NULL token rather than failing".
  \<^item> \<open>expandValues\<close> takes a format and the values for its \<^verbatim>\<open>?\<close> marks (the one caller
    builds one mark per argument); it writes the format, with each value in turn rendered by
    the value dispatch in the place of the next mark.

  The cases \<open>FieldLiteral\<close> and \<open>FunctionInfoPtr\<close> of \<open>Field_AppendSQLExclude\<close>, and
  \<open>FunctionInfo_AppendSQLExclude\<close>, follow fields.go (line 23) and function_info.go
  (lines 22-41): a nil \<^verbatim>\<open>*FunctionInfo\<close> writes nothing.
\<close>

function (sequential)
  Field_AppendSQLExclude ::
    "Field \<Rightarrow> string \<times> value list \<Rightarrow> string list \<Rightarrow> string \<times> value list"
and FunctionInfo_AppendSQLExclude ::
    "FunctionInfo option \<Rightarrow> string \<times> value list \<Rightarrow> string list \<Rightarrow> string \<times> value list"
and expandValues ::
    "string \<times> value list \<Rightarrow> string list \<Rightarrow> string \<Rightarrow> Value list \<Rightarrow> string \<times> value list"
and appendSQLValue ::
    "string \<times> value list \<Rightarrow> string list \<Rightarrow> Value \<Rightarrow> string \<times> value list"
where
  "Field_AppendSQLExclude (FieldLiteral f) (buf, args) excl = (buf @ f, args)"
| "Field_AppendSQLExclude (FunctionInfoPtr p) st excl = FunctionInfo_AppendSQLExclude p st excl"
| "Field_AppendSQLExclude (TableColumn q n a) (buf, args) excl =
     (if q \<in> set excl then (buf @ n, args) else (buf @ q @ ''.'' @ n, args))"
| "FunctionInfo_AppendSQLExclude None st excl = st"
| "FunctionInfo_AppendSQLExclude (Some f) st excl =
     expandValues st excl (FunctionInfo_format f) (Arguments f)"
| "expandValues (buf, args) excl format [] = (buf @ format, args)"
| "expandValues (buf, args) excl format (v # vs) =
     (case split_question format of
        None \<Rightarrow> (buf @ format, args)
      | Some (pre, rest) \<Rightarrow>
          expandValues (appendSQLValue (buf @ pre, args) excl v) excl rest vs)"
| "appendSQLValue (buf, args) excl (Literal v) = (buf @ ''?'', args @ [v])"
| "appendSQLValue st excl (FieldValue f) = Field_AppendSQLExclude f st excl"
| "appendSQLValue (buf, args) excl (QueryValue q) =
     (buf @ ''('' @ tokens_text (NestThis_sql q) @ '')'', args @ tokens_args (NestThis_sql q))"
| "appendSQLValue (buf, args) excl NilValue = (buf @ ''NULL'', args)"
  by pat_completeness auto
termination
  apply (relation "measure (\<lambda>x. case x of
        Inl (Inl (f, st, excl)) \<Rightarrow> 2 * size f
      | Inl (Inr (p, st, excl)) \<Rightarrow> 2 * size_option size p
      | Inr (Inl (st, excl, fmt, vs)) \<Rightarrow> 2 * size_list size vs + 1
      | Inr (Inr (st, excl, v)) \<Rightarrow> 2 * size v)")
      apply auto
  subgoal for f by (cases f) simp
  done

text \<open>
  \<^verbatim>\<open>GetAlias\<close>: the empty string for a \<open>FieldLiteral\<close>; \<^verbatim>\<open>f.Alias\<close> for a
  \<^verbatim>\<open>*FunctionInfo\<close>, which dereferences the pointer and panics when it is nil.
\<close>

fun Field_GetAlias :: "Field \<Rightarrow> value + string" where
  "Field_GetAlias (FieldLiteral f) = Inr ''''"
| "Field_GetAlias (FunctionInfoPtr None) = Inl nil_dereference"
| "Field_GetAlias (FunctionInfoPtr (Some f)) = Inr (Alias f)"
| "Field_GetAlias (TableColumn q n a) = Inr a"

text \<open>\<^verbatim>\<open>Fields.AppendSQLExclude\<close>: the loop, with its index.\<close>

fun Fields_AppendSQLExclude_from ::
  "nat \<Rightarrow> Fields \<Rightarrow> string \<times> value list \<Rightarrow> string list \<Rightarrow> string \<times> value list" where
  "Fields_AppendSQLExclude_from i [] st excl = st"
| "Fields_AppendSQLExclude_from i (field # fs) (buf, args) excl =
     (let buf = (if i > 0 then buf @ '', '' else buf);
          st = (case field of
                  None \<Rightarrow> (buf @ ''NULL'', args)
                | Some f \<Rightarrow> Field_AppendSQLExclude f (buf, args) excl)
      in Fields_AppendSQLExclude_from (i + 1) fs st excl)"

definition Fields_AppendSQLExclude ::
  "Fields \<Rightarrow> string \<times> value list \<Rightarrow> string list \<Rightarrow> string \<times> value list" where
  "Fields_AppendSQLExclude fs st excl = Fields_AppendSQLExclude_from 0 fs st excl"

text \<open>\<^verbatim>\<open>Fields.AppendSQLExcludeWithAlias\<close>: as above, and each alias after its field.\<close>

fun Fields_AppendSQLExcludeWithAlias_from ::
  "nat \<Rightarrow> Fields \<Rightarrow> string \<times> value list \<Rightarrow> string list \<Rightarrow> (string \<times> value list) outcome" where
  "Fields_AppendSQLExcludeWithAlias_from i [] st excl = Normal st"
| "Fields_AppendSQLExcludeWithAlias_from i (field # fs) (buf, args) excl =
     (let buf = (if i > 0 then buf @ '', '' else buf)
      in (case field of
            None \<Rightarrow> Fields_AppendSQLExcludeWithAlias_from (i + 1) fs (buf @ ''NULL'', args) excl
          | Some f \<Rightarrow>
              (let st = Field_AppendSQLExclude f (buf, args) excl
               in (case Field_GetAlias f of
                     Inl r \<Rightarrow> Panic r st
                   | Inr alias \<Rightarrow>
                       Fields_AppendSQLExcludeWithAlias_from (i + 1) fs
                         (if alias \<noteq> '''' then (fst st @ '' AS '' @ alias, snd st) else st)
                         excl))))"

definition Fields_AppendSQLExcludeWithAlias ::
  "Fields \<Rightarrow> string \<times> value list \<Rightarrow> string list \<Rightarrow> (string \<times> value list) outcome" where
  "Fields_AppendSQLExcludeWithAlias fs st excl =
     Fields_AppendSQLExcludeWithAlias_from 0 fs st excl"

text \<open>
  \<^verbatim>\<open>FieldAssignment\<close> is the one implementation of the interface \<^verbatim>\<open>Assignment\<close> in the
  source files. Its \<^verbatim>\<open>Field\<close> goes through the value dispatch as an \<^verbatim>\<open>interface{}\<close>: a
  nil Field is a nil value.
\<close>

record FieldAssignment =
  Field :: "Field option"
  Value :: Value

type_synonym Assignments = "FieldAssignment option list"

definition Field_as_Value :: "Field option \<Rightarrow> Value" where
  "Field_as_Value f = (case f of None \<Rightarrow> NilValue | Some g \<Rightarrow> FieldValue g)"

definition FieldAssignment_AppendSQLExclude ::
  "FieldAssignment \<Rightarrow> string \<times> value list \<Rightarrow> string list \<Rightarrow> string \<times> value list" where
  "FieldAssignment_AppendSQLExclude fa st excl =
     (let st = appendSQLValue st excl (Field_as_Value (Field fa));
          st = (fst st @ '' = '', snd st)
      in appendSQLValue st excl (Value fa))"

text \<open>
  \<^verbatim>\<open>Assignments.AppendSQLExclude\<close>: the loop calls the method of each entry with no nil
  test, so a nil entry is a nil dereference.
\<close>

fun Assignments_AppendSQLExclude_from ::
  "nat \<Rightarrow> Assignments \<Rightarrow> string \<times> value list \<Rightarrow> string list \<Rightarrow> (string \<times> value list) outcome" where
  "Assignments_AppendSQLExclude_from i [] st excl = Normal st"
| "Assignments_AppendSQLExclude_from i (assignment # as) (buf, args) excl =
     (let buf = (if i > 0 then buf @ '', '' else buf)
      in (case assignment of
            None \<Rightarrow> Panic nil_dereference (buf, args)
          | Some a \<Rightarrow>
              Assignments_AppendSQLExclude_from (i + 1) as
                (FieldAssignment_AppendSQLExclude a (buf, args) excl) excl))"

definition Assignments_AppendSQLExclude ::
  "Assignments \<Rightarrow> string \<times> value list \<Rightarrow> string list \<Rightarrow> (string \<times> value list) outcome" where
  "Assignments_AppendSQLExclude as st excl = Assignments_AppendSQLExclude_from 0 as st excl"

section \<open>Tables, joins, predicates and common table expressions\<close>

text \<open>
  \<open>BaseTable\<close> and \<open>Table\<close> are interfaces. No implementation of \<open>BaseTable\<close> is among the
  source files, so a base table is given by what its three methods return. A \<open>Table\<close> is a
  \<open>Query\<close> (the type switch of the FROM clause tells it apart), a \<^verbatim>\<open>*FunctionInfo\<close>, or some
  other table. Predicates and common table expressions are given by what they render; a
  predicate renders under the exclusion list it is handed.
\<close>

record BaseTable =
  BaseTable_sql :: "token list"
  GetName :: string
  GetAlias :: string

datatype Table =
    TableQuery Query
  | TableFunction "FunctionInfo option"
  | TableOther BaseTable

fun Table_GetAlias :: "Table \<Rightarrow> value + string" where
  "Table_GetAlias (TableQuery v) = Inr (Query_GetAlias v)"
| "Table_GetAlias (TableFunction None) = Inl nil_dereference"
| "Table_GetAlias (TableFunction (Some f)) = Inr (Alias f)"
| "Table_GetAlias (TableOther t) = Inr (GetAlias t)"

record Predicate =
  Predicate_sql :: "string list \<Rightarrow> token list"

record VariadicPredicate =
  toplevel :: bool
  Predicates :: "Predicate list"

record JoinTable =
  JoinType :: string
  Table :: "Table option"
  OnPredicates :: VariadicPredicate

type_synonym JoinTables = "JoinTable list"

record CTE =
  CTE_Name :: string
  CTE_sql :: "token list"

text \<open>
  The functions and the constant that \<^verbatim>\<open>UpdateQuery\<close> uses and that are not among the source
  files are parameters of the model: what \<^verbatim>\<open>appendCTEs\<close>, \<^verbatim>\<open>JoinTables.AppendSQL\<close> and
  \<^verbatim>\<open>VariadicPredicate.AppendSQLExclude\<close> emit, the text that
  \<^verbatim>\<open>questionToDollarPlaceholders\<close> writes for a query text, and the value of the constant
  \<^verbatim>\<open>ExitPeacefully\<close>. Every theorem below holds for every choice of them.
\<close>

record deps =
  appendCTEs :: "CTE list \<Rightarrow> Table option \<Rightarrow> JoinTables \<Rightarrow> token list"
  JoinTables_AppendSQL :: "JoinTables \<Rightarrow> token list"
  VariadicPredicate_AppendSQLExclude :: "VariadicPredicate \<Rightarrow> string list \<Rightarrow> token list"
  questionToDollarPlaceholders :: "string \<Rightarrow> string"
  ExitPeacefully :: int

section \<open>The cursors of the callbacks, the connection and its rows\<close>

text \<open>
  \<open>Column\<close> is the cursor handed to a column mapper and \<open>Row\<close> the one handed to a row
  mapper; the fields listed are those that \<^verbatim>\<open>UpdateQuery\<close> reads and writes. The destinations
  of a \<open>Row\<close> are pointers in the source; here \<open>dest\<close> holds what they point to
  (\<open>Row_fields\<close> is the field \<^verbatim>\<open>fields\<close>). The field
  \<^verbatim>\<open>rows\<close> of the source's \<open>Row\<close> is unexported and only \<^verbatim>\<open>FetchContext\<close> touches it:
  the model keeps the open cursor beside the \<open>Row\<close>, out of the reach of the callbacks.

  A callback is a Go closure: it may read and change the variables it captured, and it may
  panic. The caller's variables are the state \<open>'s\<close>.
\<close>

datatype colmode = colmodeInsert | colmodeUpdate

record Column =
  mode :: colmode
  assignments :: Assignments

record Row =
  Row_fields :: Fields
  dest :: "value list"
  index :: nat

text \<open>
  The rows of \<^verbatim>\<open>database/sql\<close>. A pending row is given by what \<^verbatim>\<open>Scan\<close> does with it: it
  fails with an error, or it stores the row's values in the destinations. \<^verbatim>\<open>Close\<close> is
  idempotent and reports its error once; \<^verbatim>\<open>Err\<close> is the error met by the iteration.
\<close>

record Rows =
  pending :: "(error + value list) list"
  closed :: bool
  close_error :: "error option"
  iter_error :: "error option"

definition Rows_Close :: "Rows \<Rightarrow> error option \<times> Rows" where
  "Rows_Close rows =
     (if closed rows then (None, rows) else (close_error rows, rows\<lparr>closed := True\<rparr>))"

definition Rows_Err :: "Rows \<Rightarrow> error option" where
  "Rows_Err rows = iter_error rows"

typedecl Context

record DB =
  DB_Query :: "string \<Rightarrow> value list \<Rightarrow> error + Rows"
  DB_QueryContext :: "Context \<Rightarrow> string \<Rightarrow> value list \<Rightarrow> error + Rows"

section \<open>UpdateQuery\<close>

text \<open>
  The struct of the source, without its three logging fields: the log goes to the external
  sink \<^verbatim>\<open>q.Log\<close> and changes neither the buffer, the arguments nor the result of a fetch;
  the model is of a query whose \<^verbatim>\<open>Log\<close> is nil, its zero value.
\<close>

record 's UpdateQuery =
  nested :: bool
  CTEs :: "CTE list"
  UpdateTable :: "BaseTable option"
  Assignments :: Assignments
  FromTable :: "Table option"
  JoinTables :: JoinTables
  WherePredicate :: VariadicPredicate
  ReturningFields :: Fields
  DB :: "DB option"
  ColumnMapper :: "(Column \<Rightarrow> 's \<Rightarrow> (Column \<times> 's) outcome) option"
  RowMapper :: "(Row \<Rightarrow> 's \<Rightarrow> (Row \<times> 's) outcome) option"
  Accumulator :: "('s \<Rightarrow> 's outcome) option"

text \<open>\<^verbatim>\<open>NestThis\<close> (lines 477-480).\<close>

definition NestThis :: "'s UpdateQuery \<Rightarrow> 's UpdateQuery" where
  "NestThis q = q\<lparr>nested := True\<rparr>"

text \<open>
  \<^verbatim>\<open>AppendSQL\<close> (lines 58-146), one definition for each of its commented sections. The UPDATE
  section also yields \<^verbatim>\<open>excludedTableQualifiers\<close>, which is nil before it.
\<close>

definition section_WITH ::
  "deps \<Rightarrow> 's UpdateQuery \<Rightarrow> string \<times> value list \<Rightarrow> string \<times> value list" where
  "section_WITH d q st =
     (if \<not> nested q then append_tokens (appendCTEs d (CTEs q) (FromTable q) (JoinTables q)) st
      else st)"

definition section_UPDATE ::
  "'s UpdateQuery \<Rightarrow> string \<times> value list \<Rightarrow> (string \<times> value list) \<times> string list" where
  "section_UPDATE q st =
     (let st = (fst st @ ''UPDATE '', snd st)
      in (case UpdateTable q of
            None \<Rightarrow> ((fst st @ ''NULL'', snd st), [])
          | Some t \<Rightarrow>
              (let st = append_tokens (BaseTable_sql t) st;
                   name = GetName t;
                   alias = GetAlias t
               in if alias \<noteq> ''''
                  then ((fst st @ '' AS '' @ alias, snd st), [] @ [alias])
                  else (st, [] @ [name]))))"

definition section_SET ::
  "'s UpdateQuery \<Rightarrow> string list \<Rightarrow> string \<times> value list \<Rightarrow> (string \<times> value list) outcome" where
  "section_SET q excludedTableQualifiers st =
     (if length (Assignments q) > 0
      then Assignments_AppendSQLExclude (Assignments q) (fst st @ '' SET '', snd st)
             excludedTableQualifiers
      else Normal st)"

definition section_FROM ::
  "'s UpdateQuery \<Rightarrow> string \<times> value list \<Rightarrow> (string \<times> value list) outcome" where
  "section_FROM q st =
     (case FromTable q of
        None \<Rightarrow> Normal st
      | Some t \<Rightarrow>
          (let st = (fst st @ '' FROM '', snd st);
               st = (case t of
                       TableQuery v \<Rightarrow>
                         (let st = (fst st @ ''('', snd st);
                              st = append_tokens (NestThis_sql v) st
                          in (fst st @ '')'', snd st))
                     | TableFunction f \<Rightarrow> FunctionInfo_AppendSQLExclude f st []
                     | TableOther b \<Rightarrow> append_tokens (BaseTable_sql b) st)
           in (case Table_GetAlias t of
                 Inl r \<Rightarrow> Panic r st
               | Inr alias \<Rightarrow>
                   Normal (if alias \<noteq> '''' then (fst st @ '' AS '' @ alias, snd st) else st))))"

definition section_JOIN ::
  "deps \<Rightarrow> 's UpdateQuery \<Rightarrow> string \<times> value list \<Rightarrow> string \<times> value list" where
  "section_JOIN d q st =
     (if length (JoinTables q) > 0
      then append_tokens (JoinTables_AppendSQL d (JoinTables q)) (fst st @ '' '', snd st)
      else st)"

definition section_WHERE ::
  "deps \<Rightarrow> 's UpdateQuery \<Rightarrow> string \<times> value list \<Rightarrow> string \<times> value list" where
  "section_WHERE d q st =
     (if length (Predicates (WherePredicate q)) > 0
      then append_tokens
             (VariadicPredicate_AppendSQLExclude d ((WherePredicate q)\<lparr>toplevel := True\<rparr>) [])
             (fst st @ '' WHERE '', snd st)
      else st)"

definition section_RETURNING ::
  "'s UpdateQuery \<Rightarrow> string \<times> value list \<Rightarrow> (string \<times> value list) outcome" where
  "section_RETURNING q st =
     (if length (ReturningFields q) > 0
      then Fields_AppendSQLExcludeWithAlias (ReturningFields q) (fst st @ '' RETURNING '', snd st) []
      else Normal st)"

definition section_placeholders ::
  "deps \<Rightarrow> 's UpdateQuery \<Rightarrow> string \<times> value list \<Rightarrow> string \<times> value list" where
  "section_placeholders d q st =
     (if \<not> nested q then (questionToDollarPlaceholders d (fst st), snd st) else st)"

text \<open>The sections in their order, for a query whose assignments are settled.\<close>

definition AppendSQL_sections ::
  "deps \<Rightarrow> 's UpdateQuery \<Rightarrow> string \<times> value list \<Rightarrow> (string \<times> value list) outcome" where
  "AppendSQL_sections d q st =
     (let st = section_WITH d q st;
          (st, excludedTableQualifiers) = section_UPDATE q st
      in and_then (and_then (and_then (section_SET q excludedTableQualifiers st)
           (section_FROM q))
           (\<lambda>st. Normal (section_WHERE d q (section_JOIN d q st))))
           (\<lambda>st. and_then (section_RETURNING q st)
                    (\<lambda>st. Normal (section_placeholders d q st))))"

text \<open>
  \<^verbatim>\<open>AppendSQL\<close>: the column mapper, when there is one, is called on a fresh
  \<^verbatim>\<open>Column{mode: colmodeUpdate}\<close> and its assignments replace those of the query. A panic of
  the mapper leaves the buffer and the arguments as they were.
\<close>

definition lift_outcome :: "'s \<Rightarrow> 'a outcome \<Rightarrow> ('a \<times> 's) outcome" where
  "lift_outcome s r = (case r of Normal a \<Rightarrow> Normal (a, s) | Panic v a \<Rightarrow> Panic v (a, s))"

definition AppendSQL ::
  "deps \<Rightarrow> 's UpdateQuery \<Rightarrow> string \<times> value list \<Rightarrow> 's
     \<Rightarrow> ((string \<times> value list) \<times> 's) outcome" where
  "AppendSQL d q st s =
     (case ColumnMapper q of
        None \<Rightarrow> lift_outcome s (AppendSQL_sections d q st)
      | Some mapper \<Rightarrow>
          (case mapper \<lparr>mode = colmodeUpdate, assignments = []\<rparr> s of
             Panic r (col, s') \<Rightarrow> Panic r (st, s')
           | Normal (col, s') \<Rightarrow>
               lift_outcome s' (AppendSQL_sections d (q\<lparr>Assignments := assignments col\<rparr>) st)))"

text \<open>
  \<^verbatim>\<open>ToSQL\<close> (lines 42-52): the results are named, so after a recovered panic the query is
  still the empty string and the arguments are the list of the one recovered value.
\<close>

definition ToSQL :: "deps \<Rightarrow> 's UpdateQuery \<Rightarrow> 's \<Rightarrow> (string \<times> value list) \<times> 's" where
  "ToSQL d q s =
     (case AppendSQL d q ('''', []) s of
        Normal ((buf, args), s') \<Rightarrow> ((buf, args), s')
      | Panic r (st, s') \<Rightarrow> (('''', [r]), s'))"

section \<open>FetchContext\<close>

text \<open>
  The deferred handler of \<^verbatim>\<open>FetchContext\<close> (lines 304-317), for a recovered value \<open>r\<close> and
  the value that the named result \<^verbatim>\<open>err\<close> has when the panic is raised.
\<close>

definition recover_FetchContext :: "deps \<Rightarrow> value \<Rightarrow> error option \<Rightarrow> error option" where
  "recover_FetchContext d r err =
     (case r of
        VError (ExitCode v) \<Rightarrow> (if v \<noteq> ExitPeacefully d then Some (ExitCode v) else err)
      | VError v \<Rightarrow> Some v
      | _ \<Rightarrow> Some (Errorf_GoSyntax r))"

text \<open>
  How the row loop (lines 360-396) is left: its condition fails or it breaks, it returns an
  error, or a panic is raised while \<^verbatim>\<open>err\<close> has the given value.
\<close>

datatype loop_exit = LoopEnd | LoopReturn error | LoopPanic "value" "error option"

text \<open>
  A failed \<^verbatim>\<open>Scan\<close> (lines 363-375): the message renders \<^verbatim>\<open>r.fields[i]\<close> for each index of
  \<^verbatim>\<open>r.dest\<close>, which panics at a nil field or past the end of \<^verbatim>\<open>r.fields\<close>; otherwise the
  error of \<^verbatim>\<open>Scan\<close> is returned, wrapped.
\<close>

definition scan_failure :: "Row \<Rightarrow> error \<Rightarrow> loop_exit" where
  "scan_failure r e =
     (if list_ex Option.is_none (take (length (dest r)) (Row_fields r))
      then LoopPanic nil_dereference (Some e)
      else if length (Row_fields r) < length (dest r)
      then LoopPanic index_out_of_range (Some e)
      else LoopReturn (Errorf_MapperCheck e))"

text \<open>
  The loop over the pending rows. It yields how it was left, the rows not yet read, the
  \<open>Row\<close>, \<^verbatim>\<open>rowcount\<close> and the caller's state.
\<close>

fun rows_loop ::
  "(Row \<Rightarrow> 's \<Rightarrow> (Row \<times> 's) outcome) \<Rightarrow> ('s \<Rightarrow> 's outcome) option
     \<Rightarrow> (error + value list) list \<Rightarrow> Row \<Rightarrow> nat \<Rightarrow> 's
     \<Rightarrow> loop_exit \<times> (error + value list) list \<times> Row \<times> nat \<times> 's" where
  "rows_loop mapper accumulator [] r rowcount s = (LoopEnd, [], r, rowcount, s)"
| "rows_loop mapper accumulator (row # rest) r rowcount s =
     (let rowcount = rowcount + 1
      in (case row of
            Inl e \<Rightarrow> (scan_failure r e, rest, r, rowcount, s)
          | Inr vs \<Rightarrow>
              (let r = r\<lparr>dest := vs\<rparr>;
                   r = r\<lparr>index := 0\<rparr>
               in (case mapper r s of
                     Panic v (r, s) \<Rightarrow> (LoopPanic v None, rest, r, rowcount, s)
                   | Normal (r, s) \<Rightarrow>
                       (case accumulator of
                          None \<Rightarrow> (LoopEnd, rest, r, rowcount, s)
                        | Some acc \<Rightarrow>
                            (case acc s of
                               Panic v s \<Rightarrow> (LoopPanic v None, rest, r, rowcount, s)
                             | Normal s \<Rightarrow>
                                 rows_loop mapper accumulator rest r rowcount s))))))"

text \<open>
  What a fetch gives back: the error it returns, the caller's state as the callbacks left it,
  and the cursor (if the query was issued and gave one) in its final state.
\<close>

record 's fetched =
  err :: "error option"
  caller :: 's
  cursor :: "Rows option"

text \<open>
  Lines 356-403, from \<^verbatim>\<open>defer r.rows.Close()\<close> on. The deferred \<^verbatim>\<open>Close\<close> runs on every
  way out, before the deferred handler.
\<close>

definition fetch_rows ::
  "deps \<Rightarrow> (Row \<Rightarrow> 's \<Rightarrow> (Row \<times> 's) outcome) \<Rightarrow> ('s \<Rightarrow> 's outcome) option
     \<Rightarrow> Row \<Rightarrow> Rows \<Rightarrow> 's \<Rightarrow> 's fetched" where
  "fetch_rows d mapper accumulator r rows s =
     (if length (dest r) = 0
      then \<lparr>err = None, caller = s, cursor = Some (snd (Rows_Close rows))\<rparr>
      else
        (case rows_loop mapper accumulator (pending rows) r 0 s of
           (exit, rest, r', rowcount, s') \<Rightarrow>
             (let rows = rows\<lparr>pending := rest\<rparr>
              in (case exit of
                    LoopPanic v e \<Rightarrow>
                      \<lparr>err = recover_FetchContext d v e, caller = s',
                       cursor = Some (snd (Rows_Close rows))\<rparr>
                  | LoopReturn e \<Rightarrow>
                      \<lparr>err = Some e, caller = s', cursor = Some (snd (Rows_Close rows))\<rparr>
                  | LoopEnd \<Rightarrow>
                      (if rowcount = 0 \<and> Option.is_none accumulator
                       then \<lparr>err = Some ErrNoRows, caller = s',
                             cursor = Some (snd (Rows_Close rows))\<rparr>
                       else
                         (let (e, rows) = Rows_Close rows
                          in (case e of
                                Some e \<Rightarrow>
                                  \<lparr>err = Some e, caller = s',
                                   cursor = Some (snd (Rows_Close rows))\<rparr>
                              | None \<Rightarrow>
                                  \<lparr>err = Rows_Err rows, caller = s',
                                   cursor = Some (snd (Rows_Close rows))\<rparr>)))))))"

text \<open>
  \<^verbatim>\<open>FetchContext\<close>, lines 291-355: the connection and the mapper are looked up, the mapper is
  called once on a fresh \<^verbatim>\<open>Row{}\<close> to discover the fields and destinations, the query is
  rendered with these fields and issued. This part either ends the fetch (\<open>Inl\<close>), or hands
  over the mapper, the \<open>Row\<close>, the open cursor and the caller's state (\<open>Inr\<close>). A panic of
  the mapper or of \<^verbatim>\<open>AppendSQL\<close> is recovered by the deferred handler while \<^verbatim>\<open>err\<close> is nil.
\<close>

definition FetchContext_issue ::
  "deps \<Rightarrow> 's UpdateQuery \<Rightarrow> Context option \<Rightarrow> DB option \<Rightarrow> 's
     \<Rightarrow> 's fetched + ((Row \<Rightarrow> 's \<Rightarrow> (Row \<times> 's) outcome) \<times> Row \<times> Rows \<times> 's)" where
  "FetchContext_issue d q ctx db s =
     (case (case db of None \<Rightarrow> DB q | Some c \<Rightarrow> Some c) of
        None \<Rightarrow> Inl \<lparr>err = Some (ErrorString ''DB cannot be nil''), caller = s, cursor = None\<rparr>
      | Some db \<Rightarrow>
          (case RowMapper q of
             None \<Rightarrow>
               Inl \<lparr>err = Some (ErrorString ''cannot call Fetch/FetchContext without a mapper''),
                    caller = s, cursor = None\<rparr>
           | Some mapper \<Rightarrow>
               (case mapper \<lparr>Row_fields = [], dest = [], index = 0\<rparr> s of
                  Panic v (r, s) \<Rightarrow>
                    Inl \<lparr>err = recover_FetchContext d v None, caller = s, cursor = None\<rparr>
                | Normal (r, s) \<Rightarrow>
                    (case AppendSQL d (q\<lparr>ReturningFields := Row_fields r\<rparr>) ('''', []) s of
                       Panic v (st, s) \<Rightarrow>
                         Inl \<lparr>err = recover_FetchContext d v None, caller = s, cursor = None\<rparr>
                     | Normal ((tmpbuf, tmpargs), s) \<Rightarrow>
                         (case (case ctx of
                                  None \<Rightarrow> DB_Query db tmpbuf tmpargs
                                | Some c \<Rightarrow> DB_QueryContext db c tmpbuf tmpargs) of
                            Inl e \<Rightarrow> Inl \<lparr>err = Some e, caller = s, cursor = None\<rparr>
                          | Inr rows \<Rightarrow> Inr (mapper, r, rows, s))))))"

text \<open>\<^verbatim>\<open>FetchContext\<close> (lines 291-404).\<close>

definition FetchContext ::
  "deps \<Rightarrow> 's UpdateQuery \<Rightarrow> Context option \<Rightarrow> DB option \<Rightarrow> 's \<Rightarrow> 's fetched" where
  "FetchContext d q ctx db s =
     (case FetchContext_issue d q ctx db s of
        Inl result \<Rightarrow> result
      | Inr (mapper, r, rows, s) \<Rightarrow> fetch_rows d mapper (Accumulator q) r rows s)"

text \<open>\<^verbatim>\<open>Fetch\<close> (lines 283-286).\<close>

definition Fetch :: "deps \<Rightarrow> 's UpdateQuery \<Rightarrow> DB option \<Rightarrow> 's \<Rightarrow> 's fetched" where
  "Fetch d q db s = FetchContext d q None db s"

text \<open>\<^verbatim>\<open>Update\<close> (lines 149-153): every other field has its zero value.\<close>

definition Update :: "BaseTable option \<Rightarrow> 's UpdateQuery" where
  "Update table =
     \<lparr>nested = False, CTEs = [], UpdateTable = table, Assignments = [], FromTable = None,
      JoinTables = [], WherePredicate = \<lparr>toplevel = False, Predicates = []\<rparr>,
      ReturningFields = [], DB = None, ColumnMapper = None, RowMapper = None,
      Accumulator = None\<rparr>"

section \<open>The rendering, stated piece by piece\<close>

text \<open>
  A second description of what a statement renders, to compare with the buffer-passing
  functions above: each node gives its own list of tokens, and a list of nodes gives the
  tokens of its members with a separator between them. It follows the words of the
  specification: a literal is one placeholder with its argument, a Field is its (qualified)
  name, a nested Query is its rendering between parentheses, a nil node is \<^verbatim>\<open>NULL\<close>.
\<close>

fun joined :: "token list \<Rightarrow> token list list \<Rightarrow> token list" where
  "joined sep [] = []"
| "joined sep [ts] = ts"
| "joined sep (ts # tss) = ts @ sep @ joined sep tss"

definition schema_prefix :: "string \<Rightarrow> string" where
  "schema_prefix schema =
     (if schema = '''' then ''''
      else if list_ex (\<lambda>c. c = CHR '' '' \<or> c = CHR 0x09) schema
      then [CHR 0x22] @ schema @ [CHR 0x22] @ ''.''
      else schema @ ''.'')"

primrec Field_tokens :: "Field \<Rightarrow> string list \<Rightarrow> token list"
  and FunctionInfo_tokens :: "FunctionInfo \<Rightarrow> string list \<Rightarrow> token list"
  and Value_tokens :: "Value \<Rightarrow> string list \<Rightarrow> token list" where
  "Field_tokens (FieldLiteral f) excl = [Txt f]"
| "Field_tokens (FunctionInfoPtr p) excl =
     (case map_option (\<lambda>f. FunctionInfo_tokens f excl) p of None \<Rightarrow> [] | Some ts \<Rightarrow> ts)"
| "Field_tokens (TableColumn q n a) excl =
     [Txt (if q \<in> set excl then n else q @ ''.'' @ n)]"
| "FunctionInfo_tokens (FunctionInfo schema name alias arguments) excl =
     Txt (schema_prefix schema @ name @ ''('')
     # joined [Txt '', ''] (map (\<lambda>v. Value_tokens v excl) arguments) @ [Txt '')'']"
| "Value_tokens (Literal v) excl = [Placeholder v]"
| "Value_tokens (FieldValue f) excl = Field_tokens f excl"
| "Value_tokens (QueryValue q) excl = Txt ''('' # NestThis_sql q @ [Txt '')'']"
| "Value_tokens NilValue excl = [Txt ''NULL'']"


text \<open>
  A node is plain when no schema and no name of a function call in it holds the character
  \<^verbatim>\<open>?\<close>, which \<open>expandValues\<close> would take for the mark of an argument.
\<close>

primrec plain_Field :: "Field \<Rightarrow> bool"
  and plain_FunctionInfo :: "FunctionInfo \<Rightarrow> bool"
  and plain_Value :: "Value \<Rightarrow> bool" where
  "plain_Field (FieldLiteral f) = True"
| "plain_Field (FunctionInfoPtr p) =
     (case map_option plain_FunctionInfo p of None \<Rightarrow> True | Some b \<Rightarrow> b)"
| "plain_Field (TableColumn q n a) = True"
| "plain_FunctionInfo (FunctionInfo schema name alias arguments) =
     (CHR ''?'' \<notin> set schema \<and> CHR ''?'' \<notin> set name
      \<and> list_all (\<lambda>b. b) (map plain_Value arguments))"
| "plain_Value (Literal v) = True"
| "plain_Value (FieldValue f) = plain_Field f"
| "plain_Value (QueryValue q) = True"
| "plain_Value NilValue = True"

text \<open>Lists of fields and of assignments.\<close>

definition Field_option_tokens :: "Field option \<Rightarrow> string list \<Rightarrow> token list" where
  "Field_option_tokens f excl =
     (case f of None \<Rightarrow> [Txt ''NULL''] | Some g \<Rightarrow> Field_tokens g excl)"

definition Fields_tokens :: "Fields \<Rightarrow> string list \<Rightarrow> token list" where
  "Fields_tokens fs excl = joined [Txt '', ''] (map (\<lambda>f. Field_option_tokens f excl) fs)"

definition alias_tokens :: "string \<Rightarrow> token list" where
  "alias_tokens alias = (if alias \<noteq> '''' then [Txt ('' AS '' @ alias)] else [])"







definition plain_Field_option :: "Field option \<Rightarrow> bool" where
  "plain_Field_option f = (case f of None \<Rightarrow> True | Some g \<Rightarrow> plain_Field g)"













text \<open>The sections of \<open>AppendSQL_sections\<close> from UPDATE to RETURNING.\<close>

definition AppendSQL_body ::
  "deps \<Rightarrow> 's UpdateQuery \<Rightarrow> string \<times> value list \<Rightarrow> (string \<times> value list) outcome" where
  "AppendSQL_body d q st =
     (let (st, excludedTableQualifiers) = section_UPDATE q st
      in and_then (and_then (and_then (section_SET q excludedTableQualifiers st)
           (section_FROM q))
           (\<lambda>st. Normal (section_WHERE d q (section_JOIN d q st))))
           (section_RETURNING q))"



text \<open>
  The mapper and the accumulator called once for each row, in the order of the rows: before
  each call of the mapper the row's values are in the destinations and the read index is 0,
  and the accumulator runs on what the mapper left.
\<close>

fun map_accumulate ::
  "(Row \<Rightarrow> 's \<Rightarrow> Row \<times> 's) \<Rightarrow> ('s \<Rightarrow> 's) \<Rightarrow> value list list \<Rightarrow> Row \<times> 's \<Rightarrow> Row \<times> 's" where
  "map_accumulate m a [] rs = rs"
| "map_accumulate m a (vs # vss) (r, s) =
     (case m (r\<lparr>dest := vs, index := 0\<rparr>) s of
        (r', s') \<Rightarrow> map_accumulate m a vss (r', a s'))"

section \<open>Concrete inputs\<close>

text \<open>
  The values at which the theorems below are instantiated. \<open>example_deps\<close> fills the
  parameters of the model: the common table expressions of the statement itself in a
  \<^verbatim>\<open>WITH\<close> prefix, the join keywords space-joined, predicates joined by \<^verbatim>\<open>AND\<close>, the
  placeholder rewrite to \<^verbatim>\<open>$1\<close>, \<^verbatim>\<open>$2\<close>, ..., and \<^verbatim>\<open>ExitPeacefully\<close> as the exit code 0.
\<close>

fun decimal :: "nat \<Rightarrow> string" where
  "decimal n =
     (if n < 10 then [char_of (48 + n)] else decimal (n div 10) @ [char_of (48 + n mod 10)])"

fun example_dollars :: "nat \<Rightarrow> string \<Rightarrow> string" where
  "example_dollars n [] = []"
| "example_dollars n (c # cs) =
     (if c = CHR ''?'' then ''$'' @ decimal n @ example_dollars (n + 1) cs
      else c # example_dollars n cs)"

definition example_deps :: deps where
  "example_deps =
     \<lparr>appendCTEs =
        (\<lambda>ctes from_table joins.
           case ctes of
             [] \<Rightarrow> []
           | c # cs \<Rightarrow>
               Txt ''WITH ''
               # joined [Txt '', '']
                   (map (\<lambda>c. Txt (CTE_Name c @ '' AS ('') # CTE_sql c @ [Txt '')'']) ctes)
               @ [Txt '' '']),
      JoinTables_AppendSQL = (\<lambda>joins. joined [Txt '' ''] (map (\<lambda>j. [Txt (JoinType j)]) joins)),
      VariadicPredicate_AppendSQLExclude =
        (\<lambda>p excl. joined [Txt '' AND ''] (map (\<lambda>x. Predicate_sql x excl) (Predicates p))),
      questionToDollarPlaceholders = example_dollars 1,
      ExitPeacefully = 0\<rparr>"

definition users :: BaseTable where
  "users = \<lparr>BaseTable_sql = [Txt ''public.users''], GetName = ''users'', GetAlias = ''u''\<rparr>"

definition errEmptyEmail :: "value" where
  "errEmptyEmail = VError (ErrorString ''email cannot be empty'')"

text \<open>
  The column mapper of the test "ToSQL ColumnMapper panic translates to empty query and
  panicked value in args": it panics before it sets a column.
\<close>

definition example_panicking :: "unit UpdateQuery" where
  "example_panicking =
     (Update (Some users))\<lparr>ColumnMapper := Some (\<lambda>col s. Panic errEmptyEmail (col, s))\<rparr>"

text \<open>
  A connection that answers every query with the given rows, on a cursor that is open and
  reports no error.
\<close>

definition example_rows :: "(error + value list) list \<Rightarrow> Rows" where
  "example_rows rs = \<lparr>pending = rs, closed = False, close_error = None, iter_error = None\<rparr>"

definition example_DB :: "(error + value list) list \<Rightarrow> DB" where
  "example_DB rs =
     \<lparr>DB_Query = (\<lambda>query args. Inr (example_rows rs)),
      DB_QueryContext = (\<lambda>ctx query args. Inr (example_rows rs))\<rparr>"

text \<open>
  Callbacks that keep a log of their calls in the caller's variables. The mapper registers
  one field and one destination when the \<open>Row\<close> is fresh, as \<^verbatim>\<open>row.String(u.EMAIL)\<close> does on
  the discovery call; on a later call it reads the destinations.
\<close>

datatype example_event = Discovered | Mapped "value list" | Accumulated

definition example_map :: "Row \<Rightarrow> example_event list \<Rightarrow> Row \<times> example_event list" where
  "example_map r log =
     (if Row_fields r = []
      then (r\<lparr>Row_fields := [Some (TableColumn ''users'' ''email'' '''')], dest := [VString '''']\<rparr>,
            log @ [Discovered])
      else (r\<lparr>index := index r + 1\<rparr>, log @ [Mapped (dest r)]))"

definition example_accumulate :: "example_event list \<Rightarrow> example_event list" where
  "example_accumulate log = log @ [Accumulated]"

definition example_fetch ::
  "(example_event list \<Rightarrow> example_event list outcome) option \<Rightarrow> (error + value list) list
     \<Rightarrow> example_event list UpdateQuery" where
  "example_fetch acc rs =
     (Update (Some users))
       \<lparr>Assignments :=
          [Some \<lparr>Field = Some (TableColumn ''u'' ''displayname'' ''''),
                 Value = Literal (VString ''aaa'')\<rparr>],
        DB := Some (example_DB rs),
        RowMapper := Some (\<lambda>r s. Normal (example_map r s)),
        Accumulator := acc\<rparr>"

text \<open>The \<open>Row\<close> as the mapper of \<open>example_fetch\<close> leaves it on the discovery call.\<close>

definition example_bound :: Row where
  "example_bound =
     \<lparr>Row_fields = [Some (TableColumn ''users'' ''email'' '''')], dest = [VString ''''], index = 0\<rparr>"

text \<open>The fetch of the test "Empty mapper": a mapper that binds nothing, no accumulator.\<close>

definition example_empty_mapper :: "(error + value list) list \<Rightarrow> unit UpdateQuery" where
  "example_empty_mapper rs =
     (Update (Some users))
       \<lparr>DB := Some (example_DB rs), RowMapper := Some (\<lambda>r s. Normal (r, s))\<rparr>"


text \<open>A statement with a common table expression and one assignment.\<close>

definition example_with :: "unit UpdateQuery" where
  "example_with =
     (Update (Some users))
       \<lparr>CTEs :=
          [\<lparr>CTE_Name = ''recent'',
            CTE_sql = [Txt ''SELECT user_id FROM visits WHERE day > '', Placeholder (VInt 7)]\<rparr>],
        Assignments :=
          [Some \<lparr>Field = Some (TableColumn ''u'' ''active'' ''''),
                 Value = Literal (VBool True)\<rparr>]\<rparr>"



section \<open>Properties\<close>

subsection \<open>A panic of the column mapper inside ToSQL\<close>

text \<open>
  Claim C6. If the column mapper of a query panics with a value \<open>r\<close> when \<^verbatim>\<open>ToSQL\<close> calls it
  to discover the assignments, \<^verbatim>\<open>ToSQL\<close> still returns: the query string is empty and the
  argument list has \<open>r\<close> as its one element. Nothing is executed; the caller's variables are
  as the mapper left them.
\<close>

theorem ToSQL_column_mapper_panic:
  assumes "ColumnMapper q = Some mapper"
    and "mapper \<lparr>mode = colmodeUpdate, assignments = []\<rparr> s = Panic r (col, s')"
  shows "ToSQL d q s = (('''', [r]), s')"
  using assms by (simp add: ToSQL_def AppendSQL_def)

theorem ToSQL_column_mapper_panic_witness:
  "ToSQL example_deps example_panicking () = (('''', [errEmptyEmail]), ())"
  using ToSQL_column_mapper_panic
    [of example_panicking "\<lambda>col s. Panic errEmptyEmail (col, s)" "()" errEmptyEmail
      "\<lparr>mode = colmodeUpdate, assignments = []\<rparr>" "()" example_deps]
  by (simp add: example_panicking_def)

subsection \<open>The cursor and the row loop\<close>

lemma Rows_Close_snd: "snd (Rows_Close rows) = rows\<lparr>closed := True\<rparr>"
  by (simp add: Rows_Close_def)

lemma rows_loop_total:
  "rows_loop (\<lambda>r s. Normal (m r s)) (Some (\<lambda>s. Normal (a s))) (map Inr vss) r n s =
     (LoopEnd, [], fst (map_accumulate m a vss (r, s)), n + length vss,
      snd (map_accumulate m a vss (r, s)))"
  by (induction vss arbitrary: r n s) (auto split: prod.splits)

lemma rows_loop_single:
  "rows_loop (\<lambda>r s. Normal (m r s)) None (Inr vs # rest) r n s =
     (LoopEnd, rest, fst (m (r\<lparr>dest := vs, index := 0\<rparr>) s), n + 1,
      snd (m (r\<lparr>dest := vs, index := 0\<rparr>) s))"
  by (auto split: prod.splits)

text \<open>What \<open>fetch_rows\<close> gives back, by the way the loop is left.\<close>

lemma fetch_rows_empty_dest:
  "dest r = [] \<Longrightarrow>
   fetch_rows d mapper acc r rows s =
     \<lparr>err = None, caller = s, cursor = Some (rows\<lparr>closed := True\<rparr>)\<rparr>"
  by (simp add: fetch_rows_def Rows_Close_snd)


lemma fetch_rows_no_rows:
  "dest r \<noteq> [] \<Longrightarrow>
   rows_loop mapper None (pending rows) r 0 s = (LoopEnd, rest, r', 0, s') \<Longrightarrow>
   fetch_rows d mapper None r rows s =
     \<lparr>err = Some ErrNoRows, caller = s',
      cursor = Some (rows\<lparr>pending := rest, closed := True\<rparr>)\<rparr>"
  by (simp add: fetch_rows_def Rows_Close_snd Option.is_none_def)

lemma fetch_rows_end:
  "dest r \<noteq> [] \<Longrightarrow>
   rows_loop mapper acc (pending rows) r 0 s = (LoopEnd, rest, r', n, s') \<Longrightarrow>
   n \<noteq> 0 \<or> acc \<noteq> None \<Longrightarrow>
   fetch_rows d mapper acc r rows s =
     \<lparr>err = (case fst (Rows_Close rows) of Some e \<Rightarrow> Some e | None \<Rightarrow> iter_error rows),
      caller = s', cursor = Some (rows\<lparr>pending := rest, closed := True\<rparr>)\<rparr>"
  by (auto simp add: fetch_rows_def Rows_Close_def Rows_Err_def Option.is_none_def Let_def
        split: option.splits)

text \<open>The two example fetches bind, render and are given their cursor.\<close>

lemma example_fetch_issue:
  "FetchContext_issue example_deps (example_fetch acc rs) None None [] =
     Inr (\<lambda>r s. Normal (example_map r s), example_bound, example_rows rs, [Discovered])"
  by (simp add: FetchContext_issue_def example_fetch_def Update_def example_map_def
      example_bound_def example_DB_def AppendSQL_def lift_outcome_def AppendSQL_sections_def
      section_WITH_def section_UPDATE_def section_SET_def section_FROM_def section_JOIN_def
      section_WHERE_def section_RETURNING_def section_placeholders_def
      Assignments_AppendSQLExclude_def FieldAssignment_AppendSQLExclude_def Field_as_Value_def
      Fields_AppendSQLExcludeWithAlias_def append_tokens_def users_def example_deps_def Let_def)

lemma example_empty_mapper_issue:
  "FetchContext_issue example_deps (example_empty_mapper rs) None None () =
     Inr (\<lambda>r s. Normal (r, s), \<lparr>Row_fields = [], dest = [], index = 0\<rparr>, example_rows rs, ())"
  by (simp add: FetchContext_issue_def example_empty_mapper_def Update_def
      example_DB_def AppendSQL_def lift_outcome_def AppendSQL_sections_def
      section_WITH_def section_UPDATE_def section_SET_def section_FROM_def section_JOIN_def
      section_WHERE_def section_RETURNING_def section_placeholders_def
      append_tokens_def users_def example_deps_def Let_def)

lemma example_bound_dest: "dest example_bound \<noteq> []"
  by (simp add: example_bound_def)

lemma example_fetch_Accumulator: "Accumulator (example_fetch acc rs) = acc"
  by (simp add: example_fetch_def)

subsection \<open>A mapper that binds no destination\<close>

text \<open>
  Claim C10. When the query has been issued and the discovery call of the mapper has
  registered no scan destination, \<^verbatim>\<open>FetchContext\<close> returns a nil error at once: no row is
  read (the pending rows of the cursor are untouched), neither callback is called again (the
  caller's variables are as the discovery call left them), whatever the accumulator is and
  whatever the result set holds, an empty one included. The cursor is closed.
\<close>

theorem FetchContext_no_destinations:
  assumes "FetchContext_issue d q ctx db s = Inr (mapper, r, rows, s1)"
    and "dest r = []"
  shows "err (FetchContext d q ctx db s) = None
       \<and> caller (FetchContext d q ctx db s) = s1
       \<and> cursor (FetchContext d q ctx db s) = Some (rows\<lparr>closed := True\<rparr>)"
  using assms by (simp add: FetchContext_def fetch_rows_empty_dest)

theorem FetchContext_no_destinations_witness:
  "err (FetchContext example_deps (example_empty_mapper [Inr [VInt 7]]) None None ()) = None
 \<and> caller (FetchContext example_deps (example_empty_mapper [Inr [VInt 7]]) None None ()) = ()
 \<and> cursor (FetchContext example_deps (example_empty_mapper [Inr [VInt 7]]) None None ())
      = Some \<lparr>pending = [Inr [VInt 7]], closed = True, close_error = None, iter_error = None\<rparr>"
  using FetchContext_no_destinations [OF example_empty_mapper_issue, of "[Inr [VInt 7]]"]
  by (simp add: example_rows_def)

subsection \<open>A fetch that finds no row\<close>

text \<open>
  Claim C3, as stated, fails: the fetch of \<open>example_empty_mapper\<close> has no accumulator and
  its result set is empty, and it returns a nil error, not \<^verbatim>\<open>sql.ErrNoRows\<close>, because its
  mapper binds no destination (line 357).
\<close>

theorem FetchContext_zero_rows_counterexample:
  "Accumulator (example_empty_mapper []) = None
 \<and> FetchContext_issue example_deps (example_empty_mapper []) None None ()
      = Inr (\<lambda>r s. Normal (r, s), \<lparr>Row_fields = [], dest = [], index = 0\<rparr>, example_rows [], ())
 \<and> pending (example_rows []) = []
 \<and> err (FetchContext example_deps (example_empty_mapper []) None None ()) = None"
  by (simp add: FetchContext_def example_empty_mapper_issue fetch_rows_empty_dest
      example_rows_def)
    (simp add: example_empty_mapper_def Update_def)

text \<open>
  Claim C3, amended. For a fetch whose mapper binds at least one scan destination, and whose
  cursor holds no row and reports no error: without an accumulator the fetch returns
  \<^verbatim>\<open>sql.ErrNoRows\<close>; with an accumulator it returns a nil error. In both cases neither callback
  is called after the discovery call (the caller's variables are as that call left them), and
  the cursor is closed.
\<close>

theorem FetchContext_zero_rows:
  assumes "FetchContext_issue d q ctx db s = Inr (mapper, r, rows, s1)"
    and "dest r \<noteq> []"
    and "pending rows = []"
    and "close_error rows = None" and "iter_error rows = None"
  shows "err (FetchContext d q ctx db s) =
           (if Accumulator q = None then Some ErrNoRows else None)
       \<and> caller (FetchContext d q ctx db s) = s1
       \<and> cursor (FetchContext d q ctx db s) = Some (rows\<lparr>closed := True\<rparr>)"
proof (cases "Accumulator q")
  case None
  have "rows_loop mapper None (pending rows) r 0 s1 = (LoopEnd, [], r, 0, s1)"
    using assms(3) by simp
  from fetch_rows_no_rows [OF assms(2) this, of d] assms(1,3) None show ?thesis
    by (simp add: FetchContext_def)
next
  case (Some a)
  have "rows_loop mapper (Some a) (pending rows) r 0 s1 = (LoopEnd, [], r, 0, s1)"
    using assms(3) by simp
  from fetch_rows_end [OF assms(2) this, of d] assms(1,3,4,5) Some show ?thesis
    by (simp add: FetchContext_def Rows_Close_def)
qed

theorem FetchContext_zero_rows_witness:
  "err (FetchContext example_deps (example_fetch None []) None None []) = Some ErrNoRows
 \<and> err (FetchContext example_deps
          (example_fetch (Some (\<lambda>s. Normal (example_accumulate s))) []) None None []) = None
 \<and> caller (FetchContext example_deps
          (example_fetch (Some (\<lambda>s. Normal (example_accumulate s))) []) None None [])
      = [Discovered]"
  using FetchContext_zero_rows [OF example_fetch_issue example_bound_dest, of "[]" None]
    FetchContext_zero_rows [OF example_fetch_issue example_bound_dest,
      of "[]" "Some (\<lambda>s. Normal (example_accumulate s))"]
  by (simp add: example_rows_def example_fetch_Accumulator)

subsection \<open>A panic of a callback during the row loop\<close>




subsection \<open>One call of the mapper, or one pair of calls per row\<close>

text \<open>
  Claim C2. Let a fetch have reached its row loop with a mapper that bound at least one
  destination; let every row scan without error and let no callback panic (the callbacks are
  total functions \<open>m\<close> and \<open>a\<close> of the caller's variables). Then
  \<^item> without an accumulator and with a first row \<open>vs\<close>: after the discovery call the mapper is
    called once, on the first row; the rows after it are left unread on the cursor;
  \<^item> with an accumulator: the caller's variables end as \<open>map_accumulate\<close> leaves them, that is
    the mapper and then the accumulator were called once for each row, in the order of the
    rows, and no row is left.
  The fetch returns the error of \<^verbatim>\<open>Close\<close>, else the error of \<^verbatim>\<open>Err\<close>, nil when there is none.
\<close>

theorem FetchContext_rows:
  assumes "FetchContext_issue d q ctx db s = Inr (\<lambda>r s. Normal (m r s), r, rows, s1)"
    and "dest r \<noteq> []"
    and "pending rows = map Inr vss"
  shows "(Accumulator q = None \<and> vss = vs # rest \<longrightarrow>
            FetchContext d q ctx db s =
              \<lparr>err = (case fst (Rows_Close rows) of Some e \<Rightarrow> Some e | None \<Rightarrow> iter_error rows),
               caller = snd (m (r\<lparr>dest := vs, index := 0\<rparr>) s1),
               cursor = Some (rows\<lparr>pending := map Inr rest, closed := True\<rparr>)\<rparr>)
       \<and> (Accumulator q = Some (\<lambda>s. Normal (a s)) \<longrightarrow>
            FetchContext d q ctx db s =
              \<lparr>err = (case fst (Rows_Close rows) of Some e \<Rightarrow> Some e | None \<Rightarrow> iter_error rows),
               caller = snd (map_accumulate m a vss (r, s1)),
               cursor = Some (rows\<lparr>pending := [], closed := True\<rparr>)\<rparr>)"
proof (intro conjI impI)
  assume h: "Accumulator q = None \<and> vss = vs # rest"
  have loop: "rows_loop (\<lambda>r s. Normal (m r s)) None (pending rows) r 0 s1 =
     (LoopEnd, map Inr rest, fst (m (r\<lparr>dest := vs, index := 0\<rparr>) s1), 1,
      snd (m (r\<lparr>dest := vs, index := 0\<rparr>) s1))"
    using h assms(3) rows_loop_single [of m vs "map Inr rest" r 0 s1] by simp
  from fetch_rows_end [OF assms(2) loop, of d] assms(1) h
  show "FetchContext d q ctx db s =
              \<lparr>err = (case fst (Rows_Close rows) of Some e \<Rightarrow> Some e | None \<Rightarrow> iter_error rows),
               caller = snd (m (r\<lparr>dest := vs, index := 0\<rparr>) s1),
               cursor = Some (rows\<lparr>pending := map Inr rest, closed := True\<rparr>)\<rparr>"
    by (simp add: FetchContext_def)
next
  assume h: "Accumulator q = Some (\<lambda>s. Normal (a s))"
  have loop: "rows_loop (\<lambda>r s. Normal (m r s)) (Some (\<lambda>s. Normal (a s))) (pending rows) r 0 s1 =
     (LoopEnd, [], fst (map_accumulate m a vss (r, s1)), length vss,
      snd (map_accumulate m a vss (r, s1)))"
    using h assms(3) rows_loop_total [of m a vss r 0 s1] by simp
  from fetch_rows_end [OF assms(2) loop, of d] assms(1) h
  show "FetchContext d q ctx db s =
              \<lparr>err = (case fst (Rows_Close rows) of Some e \<Rightarrow> Some e | None \<Rightarrow> iter_error rows),
               caller = snd (map_accumulate m a vss (r, s1)),
               cursor = Some (rows\<lparr>pending := [], closed := True\<rparr>)\<rparr>"
    by (simp add: FetchContext_def)
qed

theorem FetchContext_rows_witness:
  "FetchContext example_deps
     (example_fetch None [Inr [VString ''a''], Inr [VString ''b''], Inr [VString ''c'']])
     None None []
   = \<lparr>err = None, caller = [Discovered, Mapped [VString ''a'']],
      cursor = Some \<lparr>pending = [Inr [VString ''b''], Inr [VString ''c'']], closed = True,
                     close_error = None, iter_error = None\<rparr>\<rparr>
 \<and> FetchContext example_deps
     (example_fetch (Some (\<lambda>s. Normal (example_accumulate s)))
        [Inr [VString ''a''], Inr [VString ''b''], Inr [VString ''c'']])
     None None []
   = \<lparr>err = None,
      caller = [Discovered, Mapped [VString ''a''], Accumulated, Mapped [VString ''b''],
                Accumulated, Mapped [VString ''c''], Accumulated],
      cursor = Some \<lparr>pending = [], closed = True, close_error = None, iter_error = None\<rparr>\<rparr>"
proof -
  have p: "pending (example_rows [Inr [VString ''a''], Inr [VString ''b''], Inr [VString ''c'']])
      = map Inr [[VString ''a''], [VString ''b''], [VString ''c'']]"
    by (simp add: example_rows_def)
  note inst = FetchContext_rows [OF example_fetch_issue example_bound_dest p]
  show ?thesis
    using inst [of None "[VString ''a'']" "[[VString ''b''], [VString ''c'']]" example_accumulate]
      inst [of "Some (\<lambda>s. Normal (example_accumulate s))" "[]" "[]" example_accumulate]
    by (simp add: example_fetch_Accumulator example_rows_def Rows_Close_def example_map_def
        example_accumulate_def example_bound_def)
qed

subsection \<open>Tokens and the buffer\<close>

lemma tokens_text_append [simp]: "tokens_text (a @ b) = tokens_text a @ tokens_text b"
  by (induction a rule: tokens_text.induct) auto

lemma tokens_args_append [simp]: "tokens_args (a @ b) = tokens_args a @ tokens_args b"
  by (induction a rule: tokens_args.induct) auto

lemma append_tokens_Nil [simp]: "append_tokens [] st = st"
  by (simp add: append_tokens_def)


lemma append_tokens_pair: "append_tokens ts (buf, args) = (buf @ tokens_text ts, args @ tokens_args ts)"
  by (simp add: append_tokens_def)

lemma joined_Cons: "joined sep (t # ts) = t @ concat (map (\<lambda>x. sep @ x) ts)"
  by (induction ts arbitrary: t) auto

lemma joined_Cons1: "joined [sep] (t # ts) = t @ concat (map (\<lambda>x. sep # x) ts)"
  by (induction ts arbitrary: t) auto



subsection \<open>Fields, function calls and values render their tokens\<close>

text \<open>
  The buffer-passing functions of fields.go and function_info.go append exactly the tokens of
  the node, provided the node is plain: \<open>expandValues\<close> then finds the marks where
  \<^verbatim>\<open>FunctionInfo.AppendSQLExclude\<close> has put them.
\<close>

lemma split_question_plain: "CHR ''?'' \<notin> set pre \<Longrightarrow> split_question (pre @ CHR ''?'' # rest) = Some (pre, rest)"
  by (induction pre) auto

lemma schema_prefix_plain: "CHR ''?'' \<notin> set schema \<Longrightarrow> CHR ''?'' \<notin> set (schema_prefix schema)"
  by (simp add: schema_prefix_def)

lemma expandValues_rest:
  assumes "\<And>v st. v \<in> set vs \<Longrightarrow> appendSQLValue st excl v = append_tokens (Value_tokens v excl) st"
  shows "expandValues st excl (concat (replicate (length vs) '', ?'') @ '')'') vs
         = append_tokens (concat (map (\<lambda>v. [Txt '', ''] @ Value_tokens v excl) vs) @ [Txt '')'']) st"
  using assms
proof (induction vs arbitrary: st)
  case Nil
  then show ?case by (cases st) (simp add: append_tokens_pair)
next
  case (Cons v vs)
  obtain buf args where st: "st = (buf, args)" by (cases st)
  have sq: "split_question ('', ?'' @ concat (replicate (length vs) '', ?'') @ '')'')
      = Some ('', '', concat (replicate (length vs) '', ?'') @ '')'')"
    using split_question_plain [of "'', ''" "concat (replicate (length vs) '', ?'') @ '')''"] by simp
  have v: "appendSQLValue (buf @ '', '', args) excl v = append_tokens (Value_tokens v excl) (buf @ '', '', args)"
    using Cons.prems by simp
  have IH: "expandValues st' excl (concat (replicate (length vs) '', ?'') @ '')'') vs
         = append_tokens (concat (map (\<lambda>v. [Txt '', ''] @ Value_tokens v excl) vs) @ [Txt '')'']) st'" for st'
    using Cons.IH Cons.prems by simp
  show ?case
    using sq by (simp add: st v IH append_tokens_pair del: split_question.simps)
qed

lemma FunctionInfo_format_eq:
  "FunctionInfo_format (FunctionInfo schema name alias vs) =
     schema_prefix schema @ name @
       (case vs of [] \<Rightarrow> ''()'' | v # vs' \<Rightarrow> ''(?'' @ concat (replicate (length vs') '', ?'') @ '')'')"
  by (cases vs) (simp_all add: FunctionInfo_format_def schema_prefix_def)

lemma FunctionInfo_refines:
  assumes "CHR ''?'' \<notin> set schema" and "CHR ''?'' \<notin> set name"
    and vals: "\<And>v st. v \<in> set vs \<Longrightarrow>
                  appendSQLValue st excl v = append_tokens (Value_tokens v excl) st"
  shows "FunctionInfo_AppendSQLExclude (Some (FunctionInfo schema name alias vs)) st excl
         = append_tokens (FunctionInfo_tokens (FunctionInfo schema name alias vs) excl) st"
proof (cases vs)
  case Nil
  then show ?thesis
    by (cases st) (simp add: FunctionInfo_format_eq append_tokens_pair)
next
  case (Cons v vs')
  obtain buf args where st: "st = (buf, args)" by (cases st)
  let ?pre = "schema_prefix schema @ name @ ''(''"
  let ?rest = "concat (replicate (length vs') '', ?'') @ '')''"
  have plain: "CHR ''?'' \<notin> set ?pre"
    using assms(1,2) schema_prefix_plain by simp
  have format: "FunctionInfo_format (FunctionInfo schema name alias (v # vs')) = ?pre @ CHR ''?'' # ?rest"
    by (simp add: FunctionInfo_format_eq)
  have first: "appendSQLValue (buf @ ?pre, args) excl v
      = append_tokens (Value_tokens v excl) (buf @ ?pre, args)"
    using vals Cons by simp
  have rest: "expandValues st' excl ?rest vs'
      = append_tokens (concat (map (\<lambda>v. [Txt '', ''] @ Value_tokens v excl) vs') @ [Txt '')'']) st'"
    for st'
    using expandValues_rest [of vs' excl st'] vals Cons by simp
  have step: "FunctionInfo_AppendSQLExclude (Some (FunctionInfo schema name alias vs)) st excl
      = expandValues (appendSQLValue (buf @ ?pre, args) excl v) excl ?rest vs'"
    using split_question_plain [OF plain, of ?rest]
    by (simp add: format st Cons del: split_question.simps)
  show ?thesis
    unfolding step first rest
    by (simp add: st Cons joined_Cons append_tokens_pair comp_def)
qed

lemma refines:
  shows "plain_Field f \<longrightarrow>
      (\<forall>st. Field_AppendSQLExclude f st excl = append_tokens (Field_tokens f excl) st)"
    and "plain_FunctionInfo fi \<longrightarrow>
      (\<forall>st. FunctionInfo_AppendSQLExclude (Some fi) st excl
             = append_tokens (FunctionInfo_tokens fi excl) st)"
    and "plain_Value v \<longrightarrow>
      (\<forall>st. appendSQLValue st excl v = append_tokens (Value_tokens v excl) st)"
proof (induction f and fi and v)
  case (FieldLiteral x)
  then show ?case by (simp add: append_tokens_def split_beta)
next
  case (FunctionInfoPtr x)
  then show ?case by (cases x) auto
next
  case (TableColumn x1 x2 x3)
  then show ?case by (simp add: append_tokens_def split_beta)
next
  case (FunctionInfo x1 x2 x3 x4)
  show ?case
  proof (intro impI allI)
    fix st
    assume p: "plain_FunctionInfo (FunctionInfo x1 x2 x3 x4)"
    have "appendSQLValue st' excl v = append_tokens (Value_tokens v excl) st'"
      if "v \<in> set x4" for v st'
      using FunctionInfo.IH [OF that] p that by (cases st') (simp add: list_all_iff)
    with p show "FunctionInfo_AppendSQLExclude (Some (FunctionInfo x1 x2 x3 x4)) st excl
         = append_tokens (FunctionInfo_tokens (FunctionInfo x1 x2 x3 x4) excl) st"
      by (intro FunctionInfo_refines) simp_all
  qed
next
  case (Literal x)
  then show ?case by (simp add: append_tokens_def split_beta)
next
  case (FieldValue x)
  then show ?case by simp
next
  case (QueryValue x)
  then show ?case by (simp add: append_tokens_def split_beta)
next
  case NilValue
  then show ?case by (simp add: append_tokens_def split_beta)
qed

lemma Field_refines:
  "plain_Field f \<Longrightarrow> Field_AppendSQLExclude f st excl = append_tokens (Field_tokens f excl) st"
  using refines(1) by blast




subsection \<open>Lists of assignments and of fields render their tokens\<close>







text \<open>\<^verbatim>\<open>Fields.AppendSQLExclude\<close>, the list without aliases: a nil entry is the token \<^verbatim>\<open>NULL\<close>.\<close>

lemma Fields_from_refines:
  "list_all plain_Field_option fs \<Longrightarrow> i > 0 \<Longrightarrow>
   Fields_AppendSQLExclude_from i fs st excl =
     append_tokens (concat (map (\<lambda>f. Txt '', '' # Field_option_tokens f excl) fs)) st"
proof (induction fs arbitrary: i st)
  case Nil
  then show ?case by simp
next
  case (Cons f fs)
  obtain buf args where st: "st = (buf, args)" by (cases st)
  from Cons.prems have f: "plain_Field_option f" and rest: "list_all plain_Field_option fs"
    by simp_all
  show ?case
  proof (cases f)
    case None
    then show ?thesis
      using Cons.IH [OF rest, of "Suc i"] Cons.prems(2)
      by (simp add: st Field_option_tokens_def append_tokens_def)
  next
    case (Some g)
    from f Some have p: "plain_Field g"
      by (simp add: plain_Field_option_def)
    show ?thesis
      using Cons.IH [OF rest, of "Suc i"] Cons.prems(2)
      by (simp add: st Some Field_refines [OF p] Field_option_tokens_def append_tokens_def)
  qed
qed

lemma Fields_refines:
  "list_all plain_Field_option fs \<Longrightarrow>
   Fields_AppendSQLExclude fs st excl = append_tokens (Fields_tokens fs excl) st"
proof (cases fs)
  case Nil
  then show ?thesis
    by (simp add: Fields_AppendSQLExclude_def Fields_tokens_def)
next
  case (Cons f fs')
  assume r: "list_all plain_Field_option fs"
  obtain buf args where st: "st = (buf, args)" by (cases st)
  from r Cons have f: "plain_Field_option f" and rest: "list_all plain_Field_option fs'"
    by simp_all
  show ?thesis
  proof (cases f)
    case None
    then show ?thesis
      using Fields_from_refines [OF rest, of "Suc 0" _ excl]
      by (simp add: Cons st Fields_AppendSQLExclude_def Fields_tokens_def joined_Cons1 comp_def
          Field_option_tokens_def append_tokens_def)
  next
    case (Some g)
    from f Some have p: "plain_Field g"
      by (simp add: plain_Field_option_def)
    show ?thesis
      using Fields_from_refines [OF rest, of "Suc 0" _ excl]
      by (simp add: Cons st Some Fields_AppendSQLExclude_def Fields_tokens_def joined_Cons1 comp_def
          Field_refines [OF p] Field_option_tokens_def append_tokens_def)
  qed
qed

subsection \<open>The sections of AppendSQL render the tokens of the statement\<close>

lemma and_then_assoc: "and_then (and_then r f) g = and_then r (\<lambda>x. and_then (f x) g)"
  by (cases r) auto

lemma AppendSQL_sections_body:
  "AppendSQL_sections d q st =
     and_then (AppendSQL_body d q (section_WITH d q st))
       (\<lambda>st. Normal (section_placeholders d q st))"
  by (simp add: AppendSQL_sections_def AppendSQL_body_def Let_def and_then_assoc split: prod.splits)









lemma alias_tokens_args [simp]: "tokens_args (alias_tokens a) = []"
  by (simp add: alias_tokens_def)





subsection \<open>The arguments of a statement\<close>




subsection \<open>What the nested flag changes\<close>

text \<open>
  The sections from UPDATE to RETURNING do not read the flag \<^verbatim>\<open>nested\<close>, and they use
  neither \<^verbatim>\<open>appendCTEs\<close> nor \<^verbatim>\<open>questionToDollarPlaceholders\<close>.
\<close>

lemma section_UPDATE_cong:
  "UpdateTable q = UpdateTable q' \<Longrightarrow> section_UPDATE q = section_UPDATE q'"
  by (rule ext) (simp add: section_UPDATE_def)

lemma section_SET_cong:
  "Assignments q = Assignments q' \<Longrightarrow> section_SET q = section_SET q'"
  by (rule ext, rule ext) (simp add: section_SET_def)

lemma section_FROM_cong:
  "FromTable q = FromTable q' \<Longrightarrow> section_FROM q = section_FROM q'"
  by (rule ext) (simp add: section_FROM_def)

lemma section_JOIN_cong:
  "JoinTables q = JoinTables q' \<Longrightarrow> section_JOIN d q = section_JOIN d q'"
  by (rule ext) (simp add: section_JOIN_def)

lemma section_WHERE_cong:
  "WherePredicate q = WherePredicate q' \<Longrightarrow> section_WHERE d q = section_WHERE d q'"
  by (rule ext) (simp add: section_WHERE_def)

lemma section_RETURNING_cong:
  "ReturningFields q = ReturningFields q' \<Longrightarrow> section_RETURNING q = section_RETURNING q'"
  by (rule ext) (simp add: section_RETURNING_def)

lemma section_JOIN_deps [simp]:
  "section_JOIN (d\<lparr>appendCTEs := c, questionToDollarPlaceholders := p\<rparr>) q st = section_JOIN d q st"
  by (simp add: section_JOIN_def cong: if_cong)

lemma section_WHERE_deps [simp]:
  "section_WHERE (d\<lparr>appendCTEs := c, questionToDollarPlaceholders := p\<rparr>) q st = section_WHERE d q st"
  by (simp add: section_WHERE_def cong: if_cong)

lemma AppendSQL_body_deps:
  "AppendSQL_body (d\<lparr>appendCTEs := c, questionToDollarPlaceholders := p\<rparr>) q st = AppendSQL_body d q st"
  by (simp add: AppendSQL_body_def)

lemma AppendSQL_body_cong:
  assumes "UpdateTable q = UpdateTable q'" "Assignments q = Assignments q'"
    "FromTable q = FromTable q'" "JoinTables q = JoinTables q'"
    "WherePredicate q = WherePredicate q'" "ReturningFields q = ReturningFields q'"
  shows "AppendSQL_body d q st = AppendSQL_body d q' st"
  unfolding AppendSQL_body_def
  by (simp only: section_UPDATE_cong [OF assms(1)] section_SET_cong [OF assms(2)]
      section_FROM_cong [OF assms(3)] section_JOIN_cong [OF assms(4)]
      section_WHERE_cong [OF assms(5)] section_RETURNING_cong [OF assms(6)])

lemma AppendSQL_body_nested: "AppendSQL_body d (q\<lparr>nested := b\<rparr>) st = AppendSQL_body d q st"
  by (rule AppendSQL_body_cong) simp_all

lemma AppendSQL_body_Assignments_nested:
  "AppendSQL_body d (q\<lparr>nested := b, Assignments := asg\<rparr>) st = AppendSQL_body d (q\<lparr>Assignments := asg\<rparr>) st"
  by (rule AppendSQL_body_cong) simp_all

lemma AppendSQL_sections_nested:
  "nested q \<Longrightarrow> AppendSQL_sections d q st = AppendSQL_body d q st"
  by (cases "AppendSQL_body d q st")
     (simp_all add: AppendSQL_sections_body section_WITH_def section_placeholders_def)

lemma AppendSQL_sections_unnested:
  "\<not> nested q \<Longrightarrow> AppendSQL_sections d q st =
     and_then (AppendSQL_body d q (append_tokens (appendCTEs d (CTEs q) (FromTable q) (JoinTables q)) st))
       (\<lambda>st. Normal (questionToDollarPlaceholders d (fst st), snd st))"
  by (simp add: AppendSQL_sections_body section_WITH_def section_placeholders_def)

text \<open>
  Claim C5. \<^verbatim>\<open>NestThis\<close> returns the query with \<^verbatim>\<open>nested\<close> set and nothing else changed.
  Rendering the nested query uses neither the WITH prefix nor the placeholder rewrite: its
  outcome is the same whatever \<^verbatim>\<open>appendCTEs\<close> and \<^verbatim>\<open>questionToDollarPlaceholders\<close> are.
  Rendering the same query with \<^verbatim>\<open>nested\<close> unset does both: when the nested rendering, started
  after the WITH prefix, ends with the buffer \<open>b\<close> and the arguments \<open>a\<close>, the rendering that
  is not nested ends with the rewrite of \<open>b\<close> in the buffer and with the same arguments.
\<close>

theorem nested_omits_prefix_and_rewrite:
  "NestThis q = q\<lparr>nested := True\<rparr>
 \<and> AppendSQL (d\<lparr>appendCTEs := c, questionToDollarPlaceholders := p\<rparr>) (NestThis q) st s
     = AppendSQL d (NestThis q) st s
 \<and> (\<not> nested q \<and>
     AppendSQL d (NestThis q)
       (append_tokens (appendCTEs d (CTEs q) (FromTable q) (JoinTables q)) st) s
       = Normal ((b, a), s')
     \<longrightarrow> AppendSQL d q st s = Normal ((questionToDollarPlaceholders d b, a), s'))"
proof (intro conjI impI)
  show "NestThis q = q\<lparr>nested := True\<rparr>"
    by (simp add: NestThis_def)
  show "AppendSQL (d\<lparr>appendCTEs := c, questionToDollarPlaceholders := p\<rparr>) (NestThis q) st s
     = AppendSQL d (NestThis q) st s"
    by (simp add: AppendSQL_def NestThis_def AppendSQL_sections_nested AppendSQL_body_deps
        split: option.splits outcome.splits)
next
  assume h: "\<not> nested q \<and>
     AppendSQL d (NestThis q)
       (append_tokens (appendCTEs d (CTEs q) (FromTable q) (JoinTables q)) st) s
       = Normal ((b, a), s')"
  show "AppendSQL d q st s = Normal ((questionToDollarPlaceholders d b, a), s')"
  proof (cases "ColumnMapper q")
    case None
    with h show ?thesis
      by (cases "AppendSQL_body d q (append_tokens (appendCTEs d (CTEs q) (FromTable q) (JoinTables q)) st)")
         (auto simp: AppendSQL_def NestThis_def AppendSQL_sections_nested AppendSQL_sections_unnested
            AppendSQL_body_nested lift_outcome_def)
  next
    case (Some m)
    show ?thesis
    proof (cases "m \<lparr>mode = colmodeUpdate, assignments = []\<rparr> s")
      case (Normal x)
      obtain col s1 where x: "x = (col, s1)" by (cases x)
      from h Some Normal x show ?thesis
        by (cases "AppendSQL_body d (q\<lparr>Assignments := assignments col\<rparr>)
                     (append_tokens (appendCTEs d (CTEs q) (FromTable q) (JoinTables q)) st)")
           (auto simp: AppendSQL_def NestThis_def AppendSQL_sections_nested AppendSQL_sections_unnested
              AppendSQL_body_Assignments_nested lift_outcome_def)
    next
      case (Panic v x)
      with h Some show ?thesis
        by (auto simp: AppendSQL_def NestThis_def split: prod.splits)
    qed
  qed
qed

lemma example_with_nested:
  "AppendSQL example_deps (NestThis example_with)
     (append_tokens (appendCTEs example_deps (CTEs example_with) (FromTable example_with)
        (JoinTables example_with)) ('''', [])) ()
   = Normal ((''WITH recent AS (SELECT user_id FROM visits WHERE day > ?) UPDATE public.users AS u SET active = ?'',
              [VInt 7, VBool True]), ())"
  by code_simp

theorem nested_omits_prefix_and_rewrite_witness:
  "AppendSQL example_deps (NestThis example_with) ('''', []) ()
     = Normal ((''UPDATE public.users AS u SET active = ?'', [VBool True]), ())
 \<and> AppendSQL example_deps example_with ('''', []) ()
     = Normal ((''WITH recent AS (SELECT user_id FROM visits WHERE day > $1) UPDATE public.users AS u SET active = $2'',
                [VInt 7, VBool True]), ())"
proof -
  have n: "\<not> nested example_with"
    by (simp add: example_with_def Update_def)
  have 1: "AppendSQL example_deps (NestThis example_with) ('''', []) ()
     = Normal ((''UPDATE public.users AS u SET active = ?'', [VBool True]), ())"
    by code_simp
  from nested_omits_prefix_and_rewrite
    [where q = example_with and d = example_deps and st = "('''', [])" and s = "()"
      and b = "''WITH recent AS (SELECT user_id FROM visits WHERE day > ?) UPDATE public.users AS u SET active = ?''"
      and a = "[VInt 7, VBool True]" and s' = "()"]
    n example_with_nested
  have 2: "AppendSQL example_deps example_with ('''', []) ()
     = Normal ((questionToDollarPlaceholders example_deps
         ''WITH recent AS (SELECT user_id FROM visits WHERE day > ?) UPDATE public.users AS u SET active = ?'',
                [VInt 7, VBool True]), ())"
    by blast
  have 3: "questionToDollarPlaceholders example_deps
         ''WITH recent AS (SELECT user_id FROM visits WHERE day > ?) UPDATE public.users AS u SET active = ?''
      = ''WITH recent AS (SELECT user_id FROM visits WHERE day > $1) UPDATE public.users AS u SET active = $2''"
    by code_simp
  from 1 2 3 show ?thesis by simp
qed

subsection \<open>The qualifier excluded in the SET clause\<close>




subsection \<open>Nil nodes\<close>

text \<open>
  A nil update table renders as \<^verbatim>\<open>NULL\<close> (line 72), and so does a nil entry of a field list
  (fields.go, lines 34-36).
\<close>

lemma ToSQL_nil_table:
  "ToSQL d ((Update None)\<lparr>nested := True\<rparr>) s = ((''UPDATE NULL'', []), s)"
  by (simp add: ToSQL_def AppendSQL_def AppendSQL_sections_def Update_def lift_outcome_def
      section_WITH_def section_UPDATE_def section_SET_def section_FROM_def section_JOIN_def
      section_WHERE_def section_RETURNING_def section_placeholders_def Let_def)

lemma Fields_nil_entry:
  "Fields_AppendSQLExclude [Some (FieldLiteral ''a''), None] ('''', []) excl = (''a, NULL'', [])"
  by (simp add: Fields_AppendSQLExclude_def)

text \<open>
  Claim C8 asks that every query tree renders, a nil node as the token \<^verbatim>\<open>NULL\<close>. A nil
  entry of the assignments does not: \<^verbatim>\<open>Assignments.AppendSQLExclude\<close> calls the method of each
  entry without the nil test that \<^verbatim>\<open>Fields.AppendSQLExclude\<close> makes, the call panics, and
  \<^verbatim>\<open>ToSQL\<close> returns the empty string with the runtime error as its one argument, whatever the
  update table is.
\<close>

theorem ToSQL_nil_assignment:
  "ToSQL d ((Update t)\<lparr>Assignments := [None]\<rparr>) s = (('''', [nil_dereference]), s)"
  by (simp add: ToSQL_def AppendSQL_def AppendSQL_sections_def Update_def lift_outcome_def
      section_SET_def Assignments_AppendSQLExclude_def Let_def split: prod.splits)

subsection \<open>Rendering twice\<close>





end
